theory Spec2Isabelle
  imports Complex_Main
begin

section \<open>Cells, series and frames\<close>

text \<open>
  The dashboard is a single script, \<^verbatim>\<open>streamlit_app.py\<close>, that reads one CSV file with
  pandas, filters it by two multiselect widgets, and shows three metrics, a chart and a
  preview. The embedding models the pandas values the script handles and each pandas
  operation it calls, then the script's statements in their order.

  A cell is a value of a frame. \<open>NaN\<close> is the missing marker of a text or numeric column,
  \<open>NaT\<close> the missing marker of a datetime column, \<open>Ts y m d\<close> a parsed date. Numeric cells
  are float64 in pandas; they are modelled by exact reals, so rounding, infinities and
  overflow are outside the model.
\<close>

datatype cell = NaN | NaT | Str string | Num real | Ts nat nat nat

fun isna :: "cell \<Rightarrow> bool" where
  "isna NaN = True"
| "isna NaT = True"
| "isna _ = False"

type_synonym series = "cell list"

text \<open>
  A frame has column labels and rows; a row is its index label and its cells, one per
  column, in column order.
\<close>

record dataframe =
  columns :: "string list"
  rows :: "(cell \<times> cell list) list"

text \<open>
  The exceptions the script can meet. \<open>OtherError\<close> stands for every other class below
  \<^verbatim>\<open>Exception\<close> that the reader raises (ParserError, EmptyDataError, UnicodeDecodeError,
  PermissionError, ...), with its message.
\<close>

datatype exn =
    FileNotFoundError
  | KeyError string
  | ValueError string
  | TypeError string
  | OtherError string

definition cell_at :: "cell list \<Rightarrow> nat \<Rightarrow> cell" where
  "cell_at r i = (if i < length r then r ! i else NaN)"

definition del :: "nat \<Rightarrow> 'a list \<Rightarrow> 'a list" where
  "del i xs = take i xs @ drop (Suc i) xs"

fun locs :: "string list \<Rightarrow> string \<Rightarrow> nat \<Rightarrow> nat list" where
  "locs [] c k = []"
| "locs (x # xs) c k = (if x = c then k # locs xs c (Suc k) else locs xs c (Suc k))"

text \<open>
  The positions of a label among the columns. In a header the reader renames a repeated
  name, so a header's label stands for its first column.
\<close>

definition first_loc :: "string list \<Rightarrow> string \<Rightarrow> nat option" where
  "first_loc cols c = (case locs cols c 0 of [] \<Rightarrow> None | i # _ \<Rightarrow> Some i)"

text \<open>
  \<^verbatim>\<open>df[c]\<close> is a Series when exactly one column carries the label \<open>c\<close>. No column:
  KeyError. Several columns: pandas hands back a frame, and the Series operation the
  script applies next raises; the model raises at the lookup.
\<close>

definition get_loc :: "string list \<Rightarrow> string \<Rightarrow> exn + nat" where
  "get_loc cols c =
     (case locs cols c 0 of
        [] \<Rightarrow> Inl (KeyError c)
      | [i] \<Rightarrow> Inr i
      | _ \<Rightarrow> Inl (TypeError c))"

definition getitem :: "dataframe \<Rightarrow> string \<Rightarrow> exn + series" where
  "getitem df c =
     (case get_loc (columns df) c of
        Inl e \<Rightarrow> Inl e
      | Inr i \<Rightarrow> Inr (map (\<lambda>(ix, r). cell_at r i) (rows df)))"

section \<open>The pandas operations the script calls\<close>

text \<open>\<^verbatim>\<open>Series.isin(values)\<close>: one boolean per cell; a missing cell matches a missing value.\<close>

definition isin :: "series \<Rightarrow> cell list \<Rightarrow> bool list" where
  "isin s vals = map (\<lambda>c. c \<in> set vals) s"

text \<open>\<^verbatim>\<open>mask1 & mask2\<close> on two boolean series of one frame.\<close>

definition mask_and :: "bool list \<Rightarrow> bool list \<Rightarrow> bool list" where
  "mask_and m1 m2 = map (\<lambda>(a, b). a \<and> b) (zip m1 m2)"

text \<open>\<^verbatim>\<open>df[mask]\<close>: the rows at which the mask holds, in the frame's order.\<close>

definition select :: "dataframe \<Rightarrow> bool list \<Rightarrow> dataframe" where
  "select df m = df\<lparr>rows := map fst (filter snd (zip (rows df) m))\<rparr>"

text \<open>\<^verbatim>\<open>Series.unique()\<close>: the distinct values in the order of their first appearance.\<close>

fun unique_from :: "cell list \<Rightarrow> series \<Rightarrow> cell list" where
  "unique_from seen [] = []"
| "unique_from seen (x # xs) =
     (if x \<in> set seen then unique_from seen xs else x # unique_from (x # seen) xs)"

definition unique :: "series \<Rightarrow> cell list" where
  "unique s = unique_from [] s"

text \<open>\<^verbatim>\<open>df.head(n)\<close> and \<^verbatim>\<open>df.empty\<close> (no rows or no columns).\<close>

definition head_df :: "dataframe \<Rightarrow> nat \<Rightarrow> dataframe" where
  "head_df df n = df\<lparr>rows := take n (rows df)\<rparr>"

definition empty_df :: "dataframe \<Rightarrow> bool" where
  "empty_df df = (rows df = [] \<or> columns df = [])"

text \<open>
  \<^verbatim>\<open>Series.sum()\<close> and \<^verbatim>\<open>Series.mean()\<close> skip missing cells. The sum of no value is 0, the
  mean of no value is NaN (\<open>None\<close>). The model adds and divides exact reals: the
  wrap-around of an int64 column and the rounding of float64 are not modelled, so its
  numbers are the script's only where that arithmetic is exact, as it is on small whole
  numbers. A column with a text cell makes the script raise, at the aggregation, at the
  division or at the formatting of the result; the model raises at the aggregation.
\<close>

fun number :: "cell \<Rightarrow> real option option" where
  "number (Num x) = Some (Some x)"
| "number NaN = Some None"
| "number _ = None"

fun present :: "series \<Rightarrow> real list" where
  "present [] = []"
| "present (Num x # s) = x # present s"
| "present (_ # s) = present s"

definition numeric :: "series \<Rightarrow> bool" where
  "numeric s = list_all (\<lambda>c. number c \<noteq> None) s"

definition sum_series :: "series \<Rightarrow> exn + real" where
  "sum_series s =
     (if numeric s then Inr (sum_list (present s))
      else Inl (TypeError ''unsupported operand type(s)''))"

definition mean_series :: "series \<Rightarrow> exn + real option" where
  "mean_series s =
     (if numeric s then
        Inr (if present s = [] then None
             else Some (sum_list (present s) / of_nat (length (present s))))
      else Inl (TypeError ''unsupported operand type(s)''))"

section \<open>Loading\<close>

definition FILE_PATH :: string where
  "FILE_PATH = ''data/production_basic_aggregated.csv''"

definition DATE_COLUMN :: string where
  "DATE_COLUMN = ''date''"

text \<open>The display labels; the superscript three is its two UTF-8 bytes.\<close>

definition Production_label :: string where
  "Production_label = ''Production (m'' @ [CHR 0xC2, CHR 0xB3] @ '')''"

definition Service_Hours_label :: string where
  "Service_Hours_label = ''Service Hours''"

definition Efficiency_label :: string where
  "Efficiency_label = ''Efficiency (m'' @ [CHR 0xC2, CHR 0xB3] @ ''/hour)''"

text \<open>
  What lies at \<open>FILE_PATH\<close>: nothing, something the pandas reader cannot read (with the
  reader's message), or delimited text that the reader has split into a header and
  records of typed cells. Splitting the text, inferring the column types and renaming
  repeated header names are the reader's work and are not modelled; the reader leaves
  the cells of a \<^verbatim>\<open>parse_dates\<close> column as text.
\<close>

datatype csv_file = Missing | Unreadable string | Csv "string list" "cell list list"

text \<open>
  \<^verbatim>\<open>pd.to_datetime(x, format='%Y-%m-%d', errors='coerce')\<close>. Matching one string against the
  format is the library's own code; it is the parameter \<open>strptime\<close>, which gives the
  year, month and day, or \<open>None\<close> when the string does not match. \<^verbatim>\<open>errors='coerce'\<close> turns
  a mismatch, and a missing cell, into NaT.
\<close>

type_synonym strptime = "string \<Rightarrow> (nat \<times> nat \<times> nat) option"

definition to_datetime :: "strptime \<Rightarrow> cell \<Rightarrow> cell" where
  "to_datetime strptime x =
     (case x of
        Str s \<Rightarrow> (case strptime s of Some (y, m, d) \<Rightarrow> Ts y m d | None \<Rightarrow> NaT)
      | _ \<Rightarrow> NaT)"

text \<open>A record shorter than the header is filled with NaN, as the reader does.\<close>

definition pad :: "nat \<Rightarrow> cell list \<Rightarrow> cell list" where
  "pad n r = r @ replicate (n - length r) NaN"

definition missing_parse_dates :: string where
  "missing_parse_dates =
     ''Missing column provided to '' @ [CHR 0x27] @ ''parse_dates'' @ [CHR 0x27] @ '': ''
       @ [CHR 0x27] @ ''date'' @ [CHR 0x27]"

text \<open>
  \<^verbatim>\<open>pd.read_csv(FILE_PATH, parse_dates=[DATE_COLUMN], date_parser=...)\<close>: the frame has the
  header as its columns, the records in file order under the index labels 0, 1, ...,
  and the date column converted by the date parser.
\<close>

definition read_csv :: "strptime \<Rightarrow> csv_file \<Rightarrow> exn + dataframe" where
  "read_csv strptime f =
     (case f of
        Missing \<Rightarrow> Inl FileNotFoundError
      | Unreadable msg \<Rightarrow> Inl (OtherError msg)
      | Csv header records \<Rightarrow>
          (case first_loc header DATE_COLUMN of
             None \<Rightarrow> Inl (ValueError missing_parse_dates)
           | Some i \<Rightarrow>
               Inr \<lparr>columns = header,
                    rows = map (\<lambda>(k, r).
                              (Num (of_nat k),
                               (pad (length header) r)[i := to_datetime strptime (cell_at r i)]))
                            (enumerate 0 records)\<rparr>))"

definition dropna :: "dataframe \<Rightarrow> string \<Rightarrow> exn + dataframe" where
  "dropna df c =
     (case first_loc (columns df) c of
        None \<Rightarrow> Inl (KeyError c)
      | Some i \<Rightarrow> Inr (df\<lparr>rows := filter (\<lambda>(ix, r). \<not> isna (cell_at r i)) (rows df)\<rparr>))"

definition set_index :: "dataframe \<Rightarrow> string \<Rightarrow> exn + dataframe" where
  "set_index df c =
     (case first_loc (columns df) c of
        None \<Rightarrow> Inl (KeyError c)
      | Some i \<Rightarrow>
          Inr \<lparr>columns = del i (columns df),
               rows = map (\<lambda>(ix, r). (cell_at r i, del i r)) (rows df)\<rparr>)"

definition rename :: "(string \<times> string) list \<Rightarrow> dataframe \<Rightarrow> dataframe" where
  "rename m df =
     df\<lparr>columns := map (\<lambda>c. case map_of m c of Some c' \<Rightarrow> c' | None \<Rightarrow> c) (columns df)\<rparr>"

definition display_names :: "(string \<times> string) list" where
  "display_names =
     [(''production_m3'', Production_label),
      (''service_hours'', Service_Hours_label),
      (''production_m3_per_hour'', Efficiency_label)]"

definition load_data :: "strptime \<Rightarrow> csv_file \<Rightarrow> exn + dataframe" where
  "load_data strptime f =
     (case read_csv strptime f of
        Inl e \<Rightarrow> Inl e
      | Inr data \<Rightarrow>
          (case dropna data DATE_COLUMN of
             Inl e \<Rightarrow> Inl e
           | Inr data \<Rightarrow>
               (case set_index data DATE_COLUMN of
                  Inl e \<Rightarrow> Inl e
                | Inr data \<Rightarrow> Inr (rename display_names data))))"

text \<open>
  \<^verbatim>\<open>@st.cache_data\<close> on a function without arguments: one cache entry. The first call
  that returns stores the frame; every later call hands the stored frame back and does
  not run the body. A call that raises stores nothing. \<open>executions\<close> counts the runs of
  the body.
\<close>

record cache =
  entry :: "dataframe option"
  executions :: nat

definition fresh :: cache where
  "fresh = \<lparr>entry = None, executions = 0\<rparr>"

definition cache_data_load_data :: "strptime \<Rightarrow> csv_file \<Rightarrow> cache \<Rightarrow> (exn + dataframe) \<times> cache" where
  "cache_data_load_data strptime f c =
     (case entry c of
        Some df \<Rightarrow> (Inr df, c)
      | None \<Rightarrow>
          (case load_data strptime f of
             Inl e \<Rightarrow> (Inl e, c\<lparr>executions := Suc (executions c)\<rparr>)
           | Inr df \<Rightarrow> (Inr df, \<lparr>entry = Some df, executions = Suc (executions c)\<rparr>)))"

text \<open>One run of the script after another in one process, each reading the same file.\<close>

fun reruns :: "strptime \<Rightarrow> csv_file \<Rightarrow> nat \<Rightarrow> cache \<Rightarrow> (exn + dataframe) list \<times> cache" where
  "reruns strptime f 0 c = ([], c)"
| "reruns strptime f (Suc n) c =
     (case cache_data_load_data strptime f c of
        (r, c') \<Rightarrow> (case reruns strptime f n c' of (rs, c'') \<Rightarrow> (r # rs, c'')))"

section \<open>Filtering and the key metrics\<close>

text \<open>Lines 50, 58 and 59, and 67 to 70 of the script, as functions of the widgets' values.\<close>

definition countries :: "dataframe \<Rightarrow> exn + cell list" where
  "countries df =
     (case getitem df ''country'' of
        Inl e \<Rightarrow> Inl e
      | Inr s \<Rightarrow> Inr (unique s))"

definition filtered_by_country :: "dataframe \<Rightarrow> cell list \<Rightarrow> exn + dataframe" where
  "filtered_by_country df selected_countries =
     (case getitem df ''country'' of
        Inl e \<Rightarrow> Inl e
      | Inr s \<Rightarrow> Inr (select df (isin s selected_countries)))"

definition sources :: "dataframe \<Rightarrow> cell list \<Rightarrow> exn + cell list" where
  "sources df selected_countries =
     (case filtered_by_country df selected_countries of
        Inl e \<Rightarrow> Inl e
      | Inr fbc \<Rightarrow>
          (case getitem fbc ''source'' of
             Inl e \<Rightarrow> Inl e
           | Inr s \<Rightarrow> Inr (unique s)))"

definition filtered_df :: "dataframe \<Rightarrow> cell list \<Rightarrow> cell list \<Rightarrow> exn + dataframe" where
  "filtered_df df selected_countries selected_sources =
     (case getitem df ''country'' of
        Inl e \<Rightarrow> Inl e
      | Inr cs \<Rightarrow>
          (case getitem df ''source'' of
             Inl e \<Rightarrow> Inl e
           | Inr ss \<Rightarrow>
               Inr (select df (mask_and (isin cs selected_countries) (isin ss selected_sources)))))"

text \<open>Lines 77 to 79: the three key metrics of the filtered subset.\<close>

record metrics =
  total_production :: real
  avg_efficiency :: "real option"
  total_service_hours :: real

definition key_metrics :: "dataframe \<Rightarrow> exn + metrics" where
  "key_metrics fdf =
     (case getitem fdf Production_label of
        Inl e \<Rightarrow> Inl e
      | Inr p \<Rightarrow>
     (case sum_series p of
        Inl e \<Rightarrow> Inl e
      | Inr production \<Rightarrow>
     (case getitem fdf Efficiency_label of
        Inl e \<Rightarrow> Inl e
      | Inr ef \<Rightarrow>
     (case mean_series ef of
        Inl e \<Rightarrow> Inl e
      | Inr efficiency \<Rightarrow>
     (case getitem fdf Service_Hours_label of
        Inl e \<Rightarrow> Inl e
      | Inr h \<Rightarrow>
     (case sum_series h of
        Inl e \<Rightarrow> Inl e
      | Inr hours \<Rightarrow>
          Inr \<lparr>total_production = production / 1000000,
               avg_efficiency = efficiency,
               total_service_hours = hours\<rparr>))))))"

section \<open>The script\<close>

text \<open>
  What the script puts on the page, in the order of its calls. A metric carries its label
  and its number (\<open>None\<close> for nan); the format strings applied to the numbers, and the
  drawing of the chart from its data and metric, belong to Python and Altair and are
  not modelled. The page configuration of line 6 puts nothing on the page.
\<close>

datatype widget =
    StError string
  | Title string
  | Markdown string
  | SidebarHeader string
  | Multiselect string "cell list" "cell list"
  | Columns nat
  | Metric string "real option"
  | Subheader string
  | Selectbox string "string list"
  | AltairChart dataframe "string option"
  | Warning string
  | Checkbox string
  | Write dataframe

text \<open>
  A run ends at the last line, at \<^verbatim>\<open>st.stop()\<close>, or with an exception nobody catches; for
  the last the model does not say which widgets were drawn before it.
\<close>

datatype outcome = Finished "widget list" | Stopped "widget list" | Raised exn

fun metric_or_chart :: "widget \<Rightarrow> bool" where
  "metric_or_chart (Metric l v) = True"
| "metric_or_chart (AltairChart d m) = True"
| "metric_or_chart _ = False"

text \<open>
  The state of the four input widgets: \<open>None\<close> while the user has not touched a widget,
  which then returns its default; a multiselect returns offered options only.
\<close>

record ui =
  picked_countries :: "cell list option"
  picked_sources :: "cell list option"
  picked_metric :: "string option"
  show_raw_data :: bool

definition multiselect :: "cell list \<Rightarrow> cell list \<Rightarrow> cell list option \<Rightarrow> cell list" where
  "multiselect options dflt picked =
     (case picked of
        None \<Rightarrow> dflt
      | Some xs \<Rightarrow> filter (\<lambda>x. x \<in> set xs) options)"

definition metric_options :: "string list" where
  "metric_options = [Production_label, Efficiency_label, Service_Hours_label]"

definition selectbox :: "string list \<Rightarrow> string option \<Rightarrow> string option" where
  "selectbox options picked =
     (let first = (case options of [] \<Rightarrow> None | x # _ \<Rightarrow> Some x) in
      case picked of
        Some m \<Rightarrow> if m \<in> set options then Some m else first
      | None \<Rightarrow> first)"

text \<open>\<^verbatim>\<open>filtered_df.reset_index()\<close>: the date index becomes the first column again.\<close>

definition reset_index :: "dataframe \<Rightarrow> dataframe" where
  "reset_index df =
     \<lparr>columns = DATE_COLUMN # columns df,
      rows = map (\<lambda>(k, (ix, r)). (Num (of_nat k), ix # r)) (enumerate 0 (rows df))\<rparr>"

text \<open>Lines 73 to 122: the metrics and the chart, or the warning.\<close>

definition main_metrics :: "dataframe \<Rightarrow> ui \<Rightarrow> exn + widget list" where
  "main_metrics fdf u =
     (if \<not> empty_df fdf then
        (case key_metrics fdf of
           Inl e \<Rightarrow> Inl e
         | Inr m \<Rightarrow>
             Inr [Columns 3,
                  Metric ''Total Production'' (Some (total_production m)),
                  Metric ''Average Efficiency'' (avg_efficiency m),
                  Metric ''Total Service Hours'' (Some (total_service_hours m)),
                  Markdown ''---'',
                  Subheader ''Production and Efficiency Over Time'',
                  Selectbox ''Select Metric to Visualize'' metric_options,
                  AltairChart (reset_index fdf) (selectbox metric_options (picked_metric u))])
      else
        Inr [Warning ''No data found for the selected filters. Please adjust your selections.''])"

text \<open>Lines 125 to 127: the optional preview.\<close>

definition raw_data :: "dataframe \<Rightarrow> ui \<Rightarrow> widget list" where
  "raw_data fdf u =
     Checkbox ''Show Raw Data'' #
     (if show_raw_data u then
        [Subheader ''Raw Data (First 100 rows)'', Write (head_df fdf 100)]
      else [])"

text \<open>Lines 42 to 127: the page drawn from a loaded table.\<close>

definition page :: "dataframe \<Rightarrow> ui \<Rightarrow> outcome" where
  "page df u =
     (case countries df of
        Inl e \<Rightarrow> Raised e
      | Inr cs \<Rightarrow>
     (let selected_countries = multiselect cs cs (picked_countries u) in
     (case sources df selected_countries of
        Inl e \<Rightarrow> Raised e
      | Inr ss \<Rightarrow>
     (let selected_sources = multiselect ss ss (picked_sources u) in
     (case filtered_df df selected_countries selected_sources of
        Inl e \<Rightarrow> Raised e
      | Inr fdf \<Rightarrow>
     (case main_metrics fdf u of
        Inl e \<Rightarrow> Raised e
      | Inr ws \<Rightarrow>
          Finished
            ([Title ''Water Production Dashboard: Country and Source Analysis'',
              Markdown ''Analyzing daily production and efficiency metrics over time for water sources.'',
              SidebarHeader ''Filter Data'',
              Multiselect ''Select Country'' cs cs,
              Multiselect ''Select Source'' ss ss]
             @ ws @ raw_data fdf u)))))))"

text \<open>Lines 33 to 40, then the page: one run of the whole script.\<close>

text \<open>\<^verbatim>\<open>str(e)\<close>, the text of an exception.\<close>

fun message :: "exn \<Rightarrow> string" where
  "message FileNotFoundError =
     ''[Errno 2] No such file or directory: '' @ [CHR 0x27] @ FILE_PATH @ [CHR 0x27]"
| "message (KeyError k) = [CHR 0x27] @ k @ [CHR 0x27]"
| "message (ValueError m) = m"
| "message (TypeError m) = m"
| "message (OtherError m) = m"

definition not_found_text :: string where
  "not_found_text =
     ''Error: The file '' @ [CHR 0x27] @ FILE_PATH @ [CHR 0x27]
       @ '' was not found. Please ensure your data is saved correctly.''"

definition app :: "strptime \<Rightarrow> csv_file \<Rightarrow> ui \<Rightarrow> cache \<Rightarrow> outcome \<times> cache" where
  "app strptime f u c =
     (case cache_data_load_data strptime f c of
        (Inl FileNotFoundError, c') \<Rightarrow> (Stopped [StError not_found_text], c')
      | (Inl e, c') \<Rightarrow>
          (Stopped [StError (''An error occurred while loading or parsing the data: '' @ message e)], c')
      | (Inr df, c') \<Rightarrow> (page df u, c'))"

section \<open>Reference readings of the date format\<close>

text \<open>
  For closed instances the parameter \<open>strptime\<close> needs a value. \<open>strptime_Ymd\<close> reads a
  string of ASCII digits and dashes as \<^verbatim>\<open>pd.to_datetime\<close> does under the format
  \<^verbatim>\<open>'%Y-%m-%d'\<close>: \<^verbatim>\<open>%Y\<close> is a year of four digits, \<^verbatim>\<open>%m\<close> and \<^verbatim>\<open>%d\<close> are a month and a day of
  one or two digits (the leading zero is optional when parsing), the dashes are literal,
  the whole string must match, the three numbers must name a day of the calendar, and
  that day must lie in the range of a nanosecond timestamp, 22 September 1677 to
  11 April 2262. A string with any other character is rejected here; the library takes
  some of them (a year written in decimal digits outside ASCII, for one), which is why
  the loader has the matcher as a parameter and \<open>strptime_Ymd\<close> is applied only to strings
  of ASCII digits and dashes.
\<close>

definition digits :: "string \<Rightarrow> bool" where
  "digits s = list_all (\<lambda>c. c \<in> set ''0123456789'') s"

definition digits_value :: "string \<Rightarrow> nat" where
  "digits_value s = foldl (\<lambda>n c. 10 * n + (of_char c - 48)) 0 s"

fun split_dash :: "string \<Rightarrow> string list" where
  "split_dash [] = [[]]"
| "split_dash (c # s) =
     (if c = CHR ''-'' then [] # split_dash s
      else (case split_dash s of [] \<Rightarrow> [[c]] | w # ws \<Rightarrow> (c # w) # ws))"

definition leap :: "nat \<Rightarrow> bool" where
  "leap y = (y mod 4 = 0 \<and> (y mod 100 \<noteq> 0 \<or> y mod 400 = 0))"

definition days_in_month :: "nat \<Rightarrow> nat \<Rightarrow> nat" where
  "days_in_month y m =
     (if m = 2 then (if leap y then 29 else 28)
      else if m = 4 \<or> m = 6 \<or> m = 9 \<or> m = 11 then 30 else 31)"

definition not_before :: "nat \<times> nat \<times> nat \<Rightarrow> nat \<times> nat \<times> nat \<Rightarrow> bool" where
  "not_before a b =
     (case (a, b) of
        ((y, m, d), (y0, m0, d0)) \<Rightarrow> y0 < y \<or> (y = y0 \<and> (m0 < m \<or> (m = m0 \<and> d0 \<le> d))))"

definition strptime_Ymd :: strptime where
  "strptime_Ymd s =
     (case split_dash s of
        [ys, ms, ds] \<Rightarrow>
          (let y = digits_value ys; m = digits_value ms; d = digits_value ds in
           if digits ys \<and> length ys = 4
              \<and> digits ms \<and> 1 \<le> length ms \<and> length ms \<le> 2 \<and> 1 \<le> m \<and> m \<le> 12
              \<and> digits ds \<and> 1 \<le> length ds \<and> length ds \<le> 2 \<and> 1 \<le> d \<and> d \<le> days_in_month y m
              \<and> not_before (y, m, d) (1677, 9, 22) \<and> not_before (2262, 4, 11) (y, m, d)
           then Some (y, m, d) else None)
      | _ \<Rightarrow> None)"


section \<open>Example data\<close>

text \<open>
  The header of the production file; a file of three records, the second with the date of
  the specification's example; the table loaded from it; a file without the country
  column; the table loaded from a file that has the header and no record; a loaded table
  of three rows and one of two; the widgets before any interaction.
\<close>

definition production_header :: "string list" where
  "production_header =
     [''date'', ''country'', ''source'', ''production_m3'', ''service_hours'',
      ''production_m3_per_hour'']"

definition three_records :: "cell list list" where
  "three_records =
     [[Str ''2023-01-15'', Str ''CountryA'', Str ''SourceX'', Num 100, Num 10, Num 10],
      [Str ''2023-13-40'', Str ''CountryA'', Str ''SourceX'', Num 100, Num 10, Num 10],
      [Str ''2023-01-16'', Str ''CountryB'', Str ''SourceY'', Num 300, Num 20, Num 15]]"

definition loaded_three :: dataframe where
  "loaded_three =
     \<lparr>columns = [''country'', ''source'', Production_label, Service_Hours_label, Efficiency_label],
      rows = [(Ts 2023 1 15, [Str ''CountryA'', Str ''SourceX'', Num 100, Num 10, Num 10]),
              (Ts 2023 1 16, [Str ''CountryB'', Str ''SourceY'', Num 300, Num 20, Num 15])]\<rparr>"

definition no_country_file :: csv_file where
  "no_country_file =
     Csv [''date'', ''source'', ''production_m3'', ''service_hours'', ''production_m3_per_hour'']
         [[Str ''2023-01-15'', Str ''SourceX'', Num 100, Num 10, Num 10]]"

definition header_only :: dataframe where
  "header_only =
     \<lparr>columns = [''country'', ''source'', Production_label, Service_Hours_label, Efficiency_label],
      rows = []\<rparr>"

definition example_table :: dataframe where
  "example_table =
     \<lparr>columns = [''country'', ''source'', Production_label, Service_Hours_label, Efficiency_label],
      rows = [(Ts 2023 1 15, [Str ''A'', Str ''X'', Num 1000000, Num 5, Num 10]),
              (Ts 2023 1 15, [Str ''A'', Str ''Y'', Num 500000, Num 3, Num 40]),
              (Ts 2023 1 16, [Str ''B'', Str ''X'', Num 2000000, Num 7, Num 20])]\<rparr>"

definition two_rows :: dataframe where
  "two_rows =
     \<lparr>columns = [''country'', ''source'', Production_label, Service_Hours_label, Efficiency_label],
      rows = [(Ts 2023 1 15, [Str ''A'', Str ''X'', Num 1000000, Num 5, Num 10]),
              (Ts 2023 1 16, [Str ''B'', Str ''X'', Num 2000000, Num 7, Num 20])]\<rparr>"

definition untouched :: ui where
  "untouched =
     \<lparr>picked_countries = None, picked_sources = None, picked_metric = None,
      show_raw_data = False\<rparr>"

section \<open>Properties of the operations\<close>

subsection \<open>Column positions\<close>

lemma locs_mem: "j \<in> set (locs xs c k) \<longleftrightarrow> k \<le> j \<and> j < k + length xs \<and> xs ! (j - k) = c"
proof (induction xs arbitrary: k)
  case Nil
  then show ?case by simp
next
  case (Cons x xs)
  show ?case
  proof (cases "j = k")
    case True
    then show ?thesis using Cons.IH [of "Suc k"] by auto
  next
    case False
    then have "(j - k) = Suc (j - Suc k)" if "k \<le> j" using that by simp
    then show ?thesis using False by (auto simp: Cons.IH)
  qed
qed

lemma first_loc_Some: "first_loc cols c = Some i \<Longrightarrow> i < length cols \<and> cols ! i = c"
proof -
  assume "first_loc cols c = Some i"
  then have "i \<in> set (locs cols c 0)"
    by (auto simp: first_loc_def split: list.splits)
  then show ?thesis by (simp add: locs_mem)
qed

lemma first_loc_None: "first_loc cols c = None \<longleftrightarrow> c \<notin> set cols"
proof -
  have "locs cols c 0 = [] \<longleftrightarrow> c \<notin> set cols"
  proof
    assume e: "locs cols c 0 = []"
    show "c \<notin> set cols"
    proof
      assume "c \<in> set cols"
      then obtain j where "j < length cols" "cols ! j = c" by (auto simp: in_set_conv_nth)
      then have "j \<in> set (locs cols c 0)" by (simp add: locs_mem)
      with e show False by simp
    qed
  next
    assume n: "c \<notin> set cols"
    show "locs cols c 0 = []"
    proof (rule ccontr)
      assume "locs cols c 0 \<noteq> []"
      then obtain j where "j \<in> set (locs cols c 0)" by (cases "locs cols c 0") auto
      then have "j < length cols \<and> cols ! j = c" by (simp add: locs_mem)
      with n show False by auto
    qed
  qed
  then show ?thesis by (auto simp: first_loc_def split: list.splits)
qed

lemma getitem_loc:
  "get_loc (columns df) c = Inr i \<Longrightarrow> getitem df c = Inr (map (\<lambda>(ix, r). cell_at r i) (rows df))"
  by (simp add: getitem_def)

lemma get_loc_columns: "get_loc cols c = Inr i \<Longrightarrow> cols \<noteq> []"
  by (auto simp: get_loc_def)

subsection \<open>The loader on a readable file\<close>

lemma del_update: "del i (xs[i := v]) = del i xs"
  by (simp add: del_def)

lemma cell_at_update: "i < length xs \<Longrightarrow> cell_at (xs[i := v]) i = v"
  by (simp add: cell_at_def)

lemma isna_to_datetime: "isna (to_datetime p x) \<longleftrightarrow> to_datetime p x = NaT"
  by (auto simp: to_datetime_def split: cell.splits option.splits)

text \<open>
  With the date column at position \<open>i\<close> of the header, the loader returns the records whose
  date the parser accepts, in file order, each with its date as index label and its other
  cells as they were.
\<close>

lemma load_data_Csv:
  assumes "first_loc header DATE_COLUMN = Some i"
  shows "load_data p (Csv header records) =
    Inr \<lparr>columns = map (\<lambda>c. case map_of display_names c of Some c' \<Rightarrow> c' | None \<Rightarrow> c) (del i header),
         rows = map (\<lambda>r. (to_datetime p (cell_at r i), del i (pad (length header) r)))
                  (filter (\<lambda>r. to_datetime p (cell_at r i) \<noteq> NaT) records)\<rparr>"
proof -
  have i: "i < length header" using first_loc_Some [OF assms] by simp
  have len: "i < length (pad (length header) r)" for r
    using i by (simp add: pad_def)
  let ?D = "\<lambda>r. to_datetime p (cell_at r i)"
  let ?row = "\<lambda>(k::nat, r). (Num (of_nat k), (pad (length header) r)[i := ?D r])"
  have "map (\<lambda>(ix, r). (cell_at r i, del i r))
          (filter (\<lambda>(ix, r). \<not> isna (cell_at r i)) (map ?row (enumerate n rs)))
        = map (\<lambda>r. (?D r, del i (pad (length header) r))) (filter (\<lambda>r. ?D r \<noteq> NaT) rs)" for n rs
    by (induction rs arbitrary: n)
       (simp_all add: cell_at_update [OF len] del_update isna_to_datetime)
  then show ?thesis
    using assms
    by (simp add: load_data_def read_csv_def dropna_def set_index_def rename_def)
qed

lemma load_data_failures:
  "load_data p Missing = Inl FileNotFoundError"
  "load_data p (Unreadable m) = Inl (OtherError m)"
  "DATE_COLUMN \<notin> set header \<Longrightarrow>
     load_data p (Csv header records) = Inl (ValueError missing_parse_dates)"
  by (simp_all add: load_data_def read_csv_def first_loc_None [symmetric])


subsection \<open>The cache\<close>

lemma cached_hit:
  "cache_data_load_data p f \<lparr>entry = Some df, executions = k\<rparr>
     = (Inr df, \<lparr>entry = Some df, executions = k\<rparr>)"
  by (simp add: cache_data_load_data_def)

lemma reruns_hit:
  "reruns p f n \<lparr>entry = Some df, executions = k\<rparr>
     = (replicate n (Inr df), \<lparr>entry = Some df, executions = k\<rparr>)"
  by (induction n) (simp_all add: cached_hit)

subsection \<open>Masks, selections and distinct values\<close>

lemma select_map: "map fst (filter snd (zip xs (map P xs))) = filter P xs"
  by (induction xs) auto

lemma select_rows: "select df (map P (rows df)) = df\<lparr>rows := filter P (rows df)\<rparr>"
  by (simp add: select_def select_map)

lemma mask_and_map: "mask_and (map P xs) (map Q xs) = map (\<lambda>x. P x \<and> Q x) xs"
  by (induction xs) (auto simp: mask_and_def)

lemma isin_map: "isin (map g xs) vals = map (\<lambda>x. g x \<in> set vals) xs"
  by (simp add: isin_def)

lemma set_unique_from: "set (unique_from seen s) = set s - set seen"
  by (induction s arbitrary: seen) auto

lemma distinct_unique_from: "distinct (unique_from seen s)"
  by (induction s arbitrary: seen) (auto simp: set_unique_from)

lemma set_unique: "set (unique s) = set s"
  by (simp add: unique_def set_unique_from)

lemma distinct_unique: "distinct (unique s)"
  by (simp add: unique_def distinct_unique_from)

lemma comprehension_rows:
  "concat (map (\<lambda>(ix, r). if P r then [g r] else []) xs)
     = map (\<lambda>(ix, r). g r) (filter (\<lambda>(ix, r). P r) xs)"
  by (induction xs) auto

subsection \<open>The filtering statements, row by row\<close>

lemma filtered_df_rows:
  assumes "get_loc (columns df) ''country'' = Inr i" and "get_loc (columns df) ''source'' = Inr j"
  shows "filtered_df df C S =
     Inr (df\<lparr>rows := filter (\<lambda>(ix, r). cell_at r i \<in> set C \<and> cell_at r j \<in> set S) (rows df)\<rparr>)"
proof -
  have "mask_and (isin (map (\<lambda>(ix, r). cell_at r i) (rows df)) C)
                 (isin (map (\<lambda>(ix, r). cell_at r j) (rows df)) S)
        = map (\<lambda>(ix, r). cell_at r i \<in> set C \<and> cell_at r j \<in> set S) (rows df)"
    by (simp add: isin_map mask_and_map case_prod_beta)
  then show ?thesis
    by (simp add: filtered_df_def getitem_loc [OF assms(1)] getitem_loc [OF assms(2)] select_rows)
qed

lemma filtered_by_country_rows:
  assumes "get_loc (columns df) ''country'' = Inr i"
  shows "filtered_by_country df C =
     Inr (df\<lparr>rows := filter (\<lambda>(ix, r). cell_at r i \<in> set C) (rows df)\<rparr>)"
proof -
  have "isin (map (\<lambda>(ix, r). cell_at r i) (rows df)) C
        = map (\<lambda>(ix, r). cell_at r i \<in> set C) (rows df)"
    by (simp add: isin_map case_prod_beta)
  then show ?thesis
    by (simp add: filtered_by_country_def getitem_loc [OF assms] select_rows)
qed

lemma countries_rows:
  assumes "get_loc (columns df) ''country'' = Inr i"
  shows "countries df = Inr (unique (map (\<lambda>(ix, r). cell_at r i) (rows df)))"
  by (simp add: countries_def getitem_loc [OF assms])

lemma sources_rows:
  assumes "get_loc (columns df) ''country'' = Inr i" and "get_loc (columns df) ''source'' = Inr j"
  shows "sources df C =
     Inr (unique (map (\<lambda>(ix, r). cell_at r j) (filter (\<lambda>(ix, r). cell_at r i \<in> set C) (rows df))))"
  using assms(2) by (simp add: sources_def filtered_by_country_rows [OF assms(1)] getitem_def)

subsection \<open>The example data\<close>

lemma first_loc_production_header: "first_loc production_header DATE_COLUMN = Some 0"
  by (simp add: first_loc_def production_header_def DATE_COLUMN_def)

lemma strptime_Ymd_examples:
  "strptime_Ymd ''2023-01-15'' = Some (2023, 1, 15)"
  "strptime_Ymd ''2023-01-16'' = Some (2023, 1, 16)"
  "strptime_Ymd ''2023-13-40'' = None"
  "strptime_Ymd ''2023-1-5'' = Some (2023, 1, 5)"
  by (simp_all add: strptime_Ymd_def digits_def digits_value_def days_in_month_def leap_def
        not_before_def)

lemma strptime_Ymd_range:
  "strptime_Ymd ''1500-01-01'' = None"
  "strptime_Ymd ''1677-09-21'' = None"
  "strptime_Ymd ''1677-09-22'' = Some (1677, 9, 22)"
  "strptime_Ymd ''2262-04-11'' = Some (2262, 4, 11)"
  "strptime_Ymd ''2262-04-12'' = None"
  "strptime_Ymd ''9999-12-31'' = None"
  by (simp_all add: strptime_Ymd_def digits_def digits_value_def days_in_month_def leap_def
        not_before_def)

lemma load_three_records:
  "load_data strptime_Ymd (Csv production_header three_records) = Inr loaded_three"
  using load_data_Csv [OF first_loc_production_header, of strptime_Ymd three_records]
  by (simp add: production_header_def three_records_def del_def pad_def cell_at_def
        to_datetime_def strptime_Ymd_examples display_names_def loaded_three_def)

lemma example_locs:
  "get_loc (columns example_table) ''country'' = Inr 0"
  "get_loc (columns example_table) ''source'' = Inr 1"
  by (simp_all add: example_table_def get_loc_def Production_label_def Service_Hours_label_def
        Efficiency_label_def)

lemma countries_example: "countries example_table = Inr [Str ''A'', Str ''B'']"
  by (simp add: countries_def getitem_loc [OF example_locs(1)])
     (simp add: example_table_def cell_at_def unique_def)

lemma header_only_locs:
  "get_loc (columns header_only) ''country'' = Inr 0"
  "get_loc (columns header_only) ''source'' = Inr 1"
  by (simp_all add: header_only_def get_loc_def Production_label_def Service_Hours_label_def
        Efficiency_label_def)

lemma two_rows_locs:
  "get_loc (columns two_rows) ''country'' = Inr 0"
  "get_loc (columns two_rows) ''source'' = Inr 1"
  by (simp_all add: two_rows_def get_loc_def Production_label_def Service_Hours_label_def
        Efficiency_label_def)

lemma two_rows_series:
  "getitem two_rows Production_label = Inr [Num 1000000, Num 2000000]"
  "getitem two_rows Efficiency_label = Inr [Num 10, Num 20]"
  "getitem two_rows Service_Hours_label = Inr [Num 5, Num 7]"
  by (simp_all add: getitem_def get_loc_def two_rows_def cell_at_def Production_label_def
        Service_Hours_label_def Efficiency_label_def)

text \<open>
  The rows of \<open>two_rows\<close> are those of the specification's example for the metrics:
  production 1,000,000 and 2,000,000, service hours 5 and 7, efficiency 10 and 20. Every
  sum and quotient on them is a small whole number, exact in int64 and float64 as in the
  reals.
\<close>

lemma key_metrics_two_rows:
  "key_metrics two_rows =
     Inr \<lparr>total_production = 3, avg_efficiency = Some 15, total_service_hours = 12\<rparr>"
  by (simp add: key_metrics_def two_rows_series sum_series_def mean_series_def numeric_def)

section \<open>The claims\<close>

subsection \<open>C1: the filter\<close>

text \<open>
  Claim C1. For every table and every selection of countries \<open>C\<close> and sources \<open>S\<close>, the
  filter statement (lines 67 to 70) returns exactly the rows whose country is in \<open>C\<close> and
  whose source is in \<open>S\<close>, in the table's order; when \<open>C\<close> or \<open>S\<close> is empty the result has
  no row. The table has one column labelled country, at position \<open>i\<close>, and one labelled
  source, at position \<open>j\<close>.
\<close>

theorem filtered_df_exact:
  assumes "get_loc (columns df) ''country'' = Inr i" and "get_loc (columns df) ''source'' = Inr j"
  shows "filtered_df df C S =
           Inr (df\<lparr>rows := filter (\<lambda>(ix, r). cell_at r i \<in> set C \<and> cell_at r j \<in> set S) (rows df)\<rparr>)
       \<and> filtered_df df [] S = Inr (df\<lparr>rows := []\<rparr>)
       \<and> filtered_df df C [] = Inr (df\<lparr>rows := []\<rparr>)"
proof -
  note by_rows = filtered_df_rows [OF assms]
  have "filtered_df df [] S = Inr (df\<lparr>rows := []\<rparr>)"
    by (simp add: by_rows)
  moreover have "filtered_df df C [] = Inr (df\<lparr>rows := []\<rparr>)"
    by (simp add: by_rows)
  ultimately show ?thesis
    using by_rows [of C S] by simp
qed

theorem filtered_df_exact_witness:
  "filtered_df example_table [Str ''A''] [Str ''X''] =
     Inr (example_table\<lparr>rows := [(Ts 2023 1 15, [Str ''A'', Str ''X'', Num 1000000, Num 5, Num 10])]\<rparr>)
   \<and> filtered_df example_table [] [Str ''X''] = Inr (example_table\<lparr>rows := []\<rparr>)
   \<and> filtered_df example_table [Str ''A''] [] = Inr (example_table\<lparr>rows := []\<rparr>)"
proof -
  have r: "filter (\<lambda>(ix, r). cell_at r 0 \<in> set [Str ''A''] \<and> cell_at r 1 \<in> set [Str ''X''])
             (rows example_table)
           = [(Ts 2023 1 15, [Str ''A'', Str ''X'', Num 1000000, Num 5, Num 10])]"
    by (simp add: example_table_def cell_at_def)
  show ?thesis
    using filtered_df_exact [OF example_locs(1) example_locs(2), of "[Str ''A'']" "[Str ''X'']"]
    unfolding r by simp
qed

subsection \<open>C2: rows with an unparsed date\<close>




subsection \<open>C4: the empty selection\<close>

text \<open>
  Claim C4. When the filtered table of a run is empty, the run shows the warning and
  neither a metric nor the chart: the page is the title, the text, the sidebar with its
  two selectors, the warning, and the preview section. The script tests emptiness before
  it computes, so a metric or a chart on the page means the filtered table was not
  empty.
\<close>

theorem empty_selection_warns:
  assumes "countries df = Inr cs"
    and "sources df (multiselect cs cs (picked_countries u)) = Inr ss"
    and "filtered_df df (multiselect cs cs (picked_countries u))
           (multiselect ss ss (picked_sources u)) = Inr fdf"
    and "empty_df fdf"
  shows "(\<exists>ws. page df u = Finished ws
           \<and> ws = [Title ''Water Production Dashboard: Country and Source Analysis'',
                   Markdown ''Analyzing daily production and efficiency metrics over time for water sources.'',
                   SidebarHeader ''Filter Data'',
                   Multiselect ''Select Country'' cs cs,
                   Multiselect ''Select Source'' ss ss,
                   Warning ''No data found for the selected filters. Please adjust your selections.'']
                  @ raw_data fdf u
           \<and> \<not> list_ex metric_or_chart ws)
       \<and> (\<forall>t ws. main_metrics t u = Inr ws \<and> list_ex metric_or_chart ws \<longrightarrow> \<not> empty_df t)"
proof (intro conjI allI impI)
  have "main_metrics fdf u =
      Inr [Warning ''No data found for the selected filters. Please adjust your selections.'']"
    using assms(4) by (simp add: main_metrics_def)
  moreover have "\<not> list_ex metric_or_chart (raw_data fdf u)"
    by (simp add: raw_data_def)
  ultimately show "\<exists>ws. page df u = Finished ws
           \<and> ws = [Title ''Water Production Dashboard: Country and Source Analysis'',
                   Markdown ''Analyzing daily production and efficiency metrics over time for water sources.'',
                   SidebarHeader ''Filter Data'',
                   Multiselect ''Select Country'' cs cs,
                   Multiselect ''Select Source'' ss ss,
                   Warning ''No data found for the selected filters. Please adjust your selections.'']
                  @ raw_data fdf u
           \<and> \<not> list_ex metric_or_chart ws"
    using assms(1-3) by (simp add: page_def Let_def)
next
  fix t ws
  assume a: "main_metrics t u = Inr ws \<and> list_ex metric_or_chart ws"
  show "\<not> empty_df t"
  proof
    assume "empty_df t"
    then have "main_metrics t u =
        Inr [Warning ''No data found for the selected filters. Please adjust your selections.'']"
      by (simp add: main_metrics_def)
    with a show False by auto
  qed
qed

theorem empty_selection_warns_witness:
  "page example_table (untouched\<lparr>picked_countries := Some []\<rparr>) =
     Finished [Title ''Water Production Dashboard: Country and Source Analysis'',
               Markdown ''Analyzing daily production and efficiency metrics over time for water sources.'',
               SidebarHeader ''Filter Data'',
               Multiselect ''Select Country'' [Str ''A'', Str ''B''] [Str ''A'', Str ''B''],
               Multiselect ''Select Source'' [] [],
               Warning ''No data found for the selected filters. Please adjust your selections.'',
               Checkbox ''Show Raw Data'']"
proof -
  let ?u = "untouched\<lparr>picked_countries := Some []\<rparr>"
  have m: "multiselect [Str ''A'', Str ''B''] [Str ''A'', Str ''B''] (picked_countries ?u) = []"
    by (simp add: multiselect_def)
  have s: "sources example_table
             (multiselect [Str ''A'', Str ''B''] [Str ''A'', Str ''B''] (picked_countries ?u)) = Inr []"
    unfolding m using sources_rows [OF example_locs(1) example_locs(2), of "[]"]
    by (simp add: unique_def)
  have f: "filtered_df example_table
             (multiselect [Str ''A'', Str ''B''] [Str ''A'', Str ''B''] (picked_countries ?u))
             (multiselect [] [] (picked_sources ?u)) = Inr (example_table\<lparr>rows := []\<rparr>)"
    unfolding m using filtered_df_rows [OF example_locs(1) example_locs(2), of "[]"]
    by simp
  have e: "empty_df (example_table\<lparr>rows := []\<rparr>)" by (simp add: empty_df_def)
  from empty_selection_warns [OF countries_example s f e]
  show ?thesis by (simp add: raw_data_def untouched_def)
qed

subsection \<open>C5: the sources offered\<close>

text \<open>
  Claim C5. The sources offered by the second selector (lines 58 and 59) are exactly the
  source values of the rows whose country is selected, each once; with no country
  selected no source is offered.
\<close>

theorem sources_cascade:
  assumes "get_loc (columns df) ''country'' = Inr i" and "get_loc (columns df) ''source'' = Inr j"
  shows "\<exists>ss. sources df C = Inr ss
           \<and> set ss = set [cell_at r j. (ix, r) \<leftarrow> rows df, cell_at r i \<in> set C]
           \<and> distinct ss
           \<and> sources df [] = Inr []"
proof -
  let ?offered = "map (\<lambda>(ix, r). cell_at r j) (filter (\<lambda>(ix, r). cell_at r i \<in> set C) (rows df))"
  have c: "[cell_at r j. (ix, r) \<leftarrow> rows df, cell_at r i \<in> set C] = ?offered"
    by (simp add: comprehension_rows)
  show ?thesis
  proof (intro exI conjI)
    show "sources df C = Inr (unique ?offered)"
      by (rule sources_rows [OF assms])
    show "set (unique ?offered) = set [cell_at r j. (ix, r) \<leftarrow> rows df, cell_at r i \<in> set C]"
      by (simp only: c set_unique)
    show "distinct (unique ?offered)"
      by (rule distinct_unique)
    show "sources df [] = Inr []"
      by (simp add: sources_rows [OF assms] unique_def)
  qed
qed

theorem sources_cascade_witness:
  "sources example_table [Str ''A''] = Inr [Str ''X'', Str ''Y'']
   \<and> sources example_table [Str ''B''] = Inr [Str ''X'']
   \<and> sources example_table [] = Inr []"
proof -
  have a: "sources example_table [Str ''A''] = Inr [Str ''X'', Str ''Y'']"
    and b: "sources example_table [Str ''B''] = Inr [Str ''X'']"
    using sources_rows [OF example_locs(1) example_locs(2), of "[Str ''A'']"]
      sources_rows [OF example_locs(1) example_locs(2), of "[Str ''B'']"]
    by (simp_all add: example_table_def cell_at_def unique_def)
  from sources_cascade [OF example_locs(1) example_locs(2), of "[Str ''A'']"]
  have "sources example_table [] = Inr []" by blast
  with a b show ?thesis by simp
qed

subsection \<open>C6: loading once\<close>

text \<open>
  Claim C6. When the file loads, every run of one process gets the same table, and the
  body of the loader runs once: the first call stores the table, each later call returns
  the stored table and leaves the cache as it is, whatever lies at the path by then.
\<close>

theorem load_once:
  assumes "load_data p f = Inr df"
  shows "reruns p f (Suc n) fresh =
           (replicate (Suc n) (Inr df), \<lparr>entry = Some df, executions = 1\<rparr>)
       \<and> cache_data_load_data p f' \<lparr>entry = Some df, executions = 1\<rparr>
           = (Inr df, \<lparr>entry = Some df, executions = 1\<rparr>)"
proof -
  have "cache_data_load_data p f fresh = (Inr df, \<lparr>entry = Some df, executions = 1\<rparr>)"
    using assms by (simp add: fresh_def cache_data_load_data_def)
  then show ?thesis
    by (simp add: reruns_hit cached_hit)
qed

theorem load_once_witness:
  "reruns strptime_Ymd (Csv production_header three_records) 3 fresh =
     ([Inr loaded_three, Inr loaded_three, Inr loaded_three],
      \<lparr>entry = Some loaded_three, executions = 1\<rparr>)
   \<and> cache_data_load_data strptime_Ymd Missing \<lparr>entry = Some loaded_three, executions = 1\<rparr>
           = (Inr loaded_three, \<lparr>entry = Some loaded_three, executions = 1\<rparr>)"
  using load_once [OF load_three_records, of 2 Missing]
  by (simp add: numeral_3_eq_3)

subsection \<open>C7: load failures\<close>

text \<open>
  Claim C7, as the specification states it, has every failure to read or parse the file,
  a structurally malformed file among them, surfaced as an error message, after which
  the run halts; the specification's example of such a file is one that lacks a required
  column. The handler of lines 33 to 40 encloses the call of the loader only, and the
  loader asks for no column but the date: a file that has the date column and lacks the
  country column is loaded, no message is shown, and the run ends at line 50 with a
  KeyError that nobody catches.
\<close>

theorem uncaught_missing_column_counterexample:
  "load_data strptime_Ymd no_country_file =
     Inr \<lparr>columns = [''source'', Production_label, Service_Hours_label, Efficiency_label],
          rows = [(Ts 2023 1 15, [Str ''SourceX'', Num 100, Num 10, Num 10])]\<rparr>
   \<and> fst (app strptime_Ymd no_country_file untouched fresh) = Raised (KeyError ''country'')"
proof -
  have l: "load_data strptime_Ymd no_country_file =
     Inr \<lparr>columns = [''source'', Production_label, Service_Hours_label, Efficiency_label],
          rows = [(Ts 2023 1 15, [Str ''SourceX'', Num 100, Num 10, Num 10])]\<rparr>"
    by (simp add: no_country_file_def load_data_def read_csv_def dropna_def set_index_def
          rename_def display_names_def first_loc_def DATE_COLUMN_def pad_def cell_at_def
          to_datetime_def del_def strptime_Ymd_examples)
  have "countries \<lparr>columns = [''source'', Production_label, Service_Hours_label, Efficiency_label],
          rows = [(Ts 2023 1 15, [Str ''SourceX'', Num 100, Num 10, Num 10])]\<rparr>
        = Inl (KeyError ''country'')"
    by (simp add: countries_def getitem_def get_loc_def Production_label_def
          Service_Hours_label_def Efficiency_label_def)
  then show ?thesis
    using l by (simp add: app_def cache_data_load_data_def fresh_def page_def)
qed

text \<open>
  Claim C7, amended. In a run that has nothing cached: a missing file makes the loader
  raise FileNotFoundError, and the run shows the file-not-found text and stops; an
  unreadable file, and a file without the date column, make the loader raise an
  exception, and the run shows that exception's message and stops; and so for every
  exception of the loader. In each case the error text is the only thing on the page.
  A readable file that has the date column is no failure of the loader, whatever other
  columns it has or lacks: the loader returns a table and the run goes on to the page.
\<close>

theorem load_failure_stops:
  "entry c = None \<longrightarrow>
     load_data p Missing = Inl FileNotFoundError
   \<and> fst (app p Missing u c) = Stopped [StError not_found_text]
   \<and> load_data p (Unreadable m) = Inl (OtherError m)
   \<and> fst (app p (Unreadable m) u c) =
       Stopped [StError (''An error occurred while loading or parsing the data: '' @ m)]
   \<and> (\<forall>e. load_data p f = Inl e \<and> e \<noteq> FileNotFoundError \<longrightarrow>
        fst (app p f u c) =
          Stopped [StError (''An error occurred while loading or parsing the data: '' @ message e)])
   \<and> (\<forall>h rs. DATE_COLUMN \<notin> set h \<longrightarrow>
        load_data p (Csv h rs) = Inl (ValueError missing_parse_dates)
        \<and> fst (app p (Csv h rs) u c) =
            Stopped [StError (''An error occurred while loading or parsing the data: ''
                                @ missing_parse_dates)])
   \<and> (\<forall>h rs. DATE_COLUMN \<in> set h \<longrightarrow>
        (\<exists>df. load_data p (Csv h rs) = Inr df \<and> fst (app p (Csv h rs) u c) = page df u))"
proof (intro impI conjI allI)
  assume c: "entry c = None"
  show "load_data p Missing = Inl FileNotFoundError" by (rule load_data_failures)
  show "load_data p (Unreadable m) = Inl (OtherError m)" by (rule load_data_failures)
  show "fst (app p Missing u c) = Stopped [StError not_found_text]"
    using c by (simp add: app_def cache_data_load_data_def load_data_failures)
  show "fst (app p (Unreadable m) u c) =
       Stopped [StError (''An error occurred while loading or parsing the data: '' @ m)]"
    using c by (simp add: app_def cache_data_load_data_def load_data_failures)
  {
    fix e assume "load_data p f = Inl e \<and> e \<noteq> FileNotFoundError"
    then show "fst (app p f u c) =
          Stopped [StError (''An error occurred while loading or parsing the data: '' @ message e)]"
      using c by (cases e) (simp_all add: app_def cache_data_load_data_def)
  }
  {
    fix h rs assume d: "DATE_COLUMN \<notin> set h"
    then show "load_data p (Csv h rs) = Inl (ValueError missing_parse_dates)"
      by (rule load_data_failures)
    then show "fst (app p (Csv h rs) u c) =
            Stopped [StError (''An error occurred while loading or parsing the data: ''
                                @ missing_parse_dates)]"
      using c by (simp add: app_def cache_data_load_data_def)
  }
  {
    fix h rs assume "DATE_COLUMN \<in> set h"
    then obtain i where i: "first_loc h DATE_COLUMN = Some i"
      using first_loc_None [of h DATE_COLUMN] by (cases "first_loc h DATE_COLUMN") auto
    from load_data_Csv [OF i, of p rs]
    obtain df where df: "load_data p (Csv h rs) = Inr df" by blast
    then have "fst (app p (Csv h rs) u c) = page df u"
      using c by (simp add: app_def cache_data_load_data_def)
    with df show "\<exists>df. load_data p (Csv h rs) = Inr df \<and> fst (app p (Csv h rs) u c) = page df u"
      by blast
  }
qed

theorem load_failure_stops_witness:
  "fst (app strptime_Ymd Missing untouched fresh) = Stopped [StError not_found_text]
   \<and> fst (app strptime_Ymd (Unreadable ''Error tokenizing data'') untouched fresh) =
       Stopped [StError ''An error occurred while loading or parsing the data: Error tokenizing data'']
   \<and> fst (app strptime_Ymd (Csv [''country'', ''source''] []) untouched fresh) =
       Stopped [StError (''An error occurred while loading or parsing the data: '' @ missing_parse_dates)]
   \<and> (\<exists>df. load_data strptime_Ymd no_country_file = Inr df
          \<and> fst (app strptime_Ymd no_country_file untouched fresh) = page df untouched)"
proof -
  have e: "entry fresh = None" by (simp add: fresh_def)
  have n: "DATE_COLUMN \<notin> set [''country'', ''source'']" by (simp add: DATE_COLUMN_def)
  have y: "DATE_COLUMN \<in> set [''date'', ''source'', ''production_m3'', ''service_hours'',
             ''production_m3_per_hour'']"
    by (simp add: DATE_COLUMN_def)
  note t = load_failure_stops [of fresh strptime_Ymd untouched "''Error tokenizing data''" Missing,
      THEN mp, OF e]
  note f1 = t [THEN conjunct2, THEN conjunct1]
  note f2 = t [THEN conjunct2, THEN conjunct2, THEN conjunct2, THEN conjunct1]
  note f3 = t [THEN conjunct2, THEN conjunct2, THEN conjunct2, THEN conjunct2, THEN conjunct2,
      THEN conjunct1]
  note f4 = t [THEN conjunct2, THEN conjunct2, THEN conjunct2, THEN conjunct2, THEN conjunct2,
      THEN conjunct2]
  from f3 n have g3: "fst (app strptime_Ymd (Csv [''country'', ''source''] []) untouched fresh) =
       Stopped [StError (''An error occurred while loading or parsing the data: '' @ missing_parse_dates)]"
    by (simp only: simp_thms)
  from f4 y have g4: "\<exists>df. load_data strptime_Ymd no_country_file = Inr df
          \<and> fst (app strptime_Ymd no_country_file untouched fresh) = page df untouched"
    unfolding no_country_file_def by (simp only: simp_thms)
  from f1 f2 g3 g4 show ?thesis by simp
qed

subsection \<open>C8: order and column names of the loaded table\<close>

text \<open>
  Claim C8. The table loaded from a readable file with the date column at position \<open>i\<close>
  has the retained records in file order; its columns are the header's without the date
  column, with production_m3, service_hours and production_m3_per_hour under their
  display labels and every other column, country and source among them, under its own
  name.
\<close>

theorem load_data_order_and_names:
  assumes "first_loc header DATE_COLUMN = Some i"
  shows "load_data p (Csv header records) =
    Inr \<lparr>columns =
           map (\<lambda>c. if c = ''production_m3'' then Production_label
                    else if c = ''service_hours'' then Service_Hours_label
                    else if c = ''production_m3_per_hour'' then Efficiency_label
                    else c)
             (del i header),
         rows = map (\<lambda>r. (to_datetime p (cell_at r i), del i (pad (length header) r)))
                  (filter (\<lambda>r. to_datetime p (cell_at r i) \<noteq> NaT) records)\<rparr>"
proof -
  have "(\<lambda>c. case map_of display_names c of Some c' \<Rightarrow> c' | None \<Rightarrow> c) =
        (\<lambda>c. if c = ''production_m3'' then Production_label
                    else if c = ''service_hours'' then Service_Hours_label
                    else if c = ''production_m3_per_hour'' then Efficiency_label
                    else c)"
    by (rule ext) (simp add: display_names_def)
  then show ?thesis using load_data_Csv [OF assms, of p records] by simp
qed

theorem load_data_order_and_names_witness:
  "load_data strptime_Ymd (Csv production_header three_records) =
    Inr \<lparr>columns = [''country'', ''source'', Production_label, Service_Hours_label, Efficiency_label],
         rows = [(Ts 2023 1 15, [Str ''CountryA'', Str ''SourceX'', Num 100, Num 10, Num 10]),
                 (Ts 2023 1 16, [Str ''CountryB'', Str ''SourceY'', Num 300, Num 20, Num 15])]\<rparr>"
  using load_data_order_and_names [OF first_loc_production_header, of strptime_Ymd three_records]
  by (simp add: production_header_def three_records_def del_def pad_def cell_at_def
        to_datetime_def strptime_Ymd_examples)

subsection \<open>C9: the preview\<close>

text \<open>
  Claim C9. When the preview is asked for, it shows the first 100 rows of the filtered
  table in order, all of them when there are fewer: min(100, n) rows for a table of \<open>n\<close>
  rows.
\<close>

theorem raw_data_preview:
  "show_raw_data u \<longrightarrow>
     raw_data fdf u =
       [Checkbox ''Show Raw Data'', Subheader ''Raw Data (First 100 rows)'', Write (head_df fdf 100)]
     \<and> rows (head_df fdf 100) = take 100 (rows fdf)
     \<and> length (rows (head_df fdf 100)) = min 100 (length (rows fdf))
     \<and> columns (head_df fdf 100) = columns fdf"
proof
  assume "show_raw_data u"
  then have "raw_data fdf u =
       [Checkbox ''Show Raw Data'', Subheader ''Raw Data (First 100 rows)'', Write (head_df fdf 100)]"
    by (simp add: raw_data_def)
  moreover have "rows (head_df fdf 100) = take 100 (rows fdf)"
    and "columns (head_df fdf 100) = columns fdf"
    by (simp_all add: head_df_def)
  ultimately show "raw_data fdf u =
       [Checkbox ''Show Raw Data'', Subheader ''Raw Data (First 100 rows)'', Write (head_df fdf 100)]
     \<and> rows (head_df fdf 100) = take 100 (rows fdf)
     \<and> length (rows (head_df fdf 100)) = min 100 (length (rows fdf))
     \<and> columns (head_df fdf 100) = columns fdf"
    by (simp add: min.commute)
qed

theorem raw_data_preview_witness:
  "raw_data example_table (untouched\<lparr>show_raw_data := True\<rparr>) =
       [Checkbox ''Show Raw Data'', Subheader ''Raw Data (First 100 rows)'', Write example_table]
   \<and> length (rows (head_df \<lparr>columns = [''country''], rows = replicate 150 (NaT, [Str ''A''])\<rparr> 100)) = 100
   \<and> length (rows (head_df example_table 100)) = 3"
proof -
  have e: "head_df example_table 100 = example_table"
    by (simp add: head_df_def example_table_def)
  show ?thesis
    using raw_data_preview [of "untouched\<lparr>show_raw_data := True\<rparr>" example_table]
      raw_data_preview [of "untouched\<lparr>show_raw_data := True\<rparr>"
        "\<lparr>columns = [''country''], rows = replicate 150 (NaT, [Str ''A''])\<rparr>"]
    by (simp add: e) (simp add: example_table_def)
qed

subsection \<open>C10: the default selection\<close>

text \<open>
  Claim C10, as stated, has the first page of the dashboard compute its metrics and its
  chart over the whole table, for every loaded table whose country and source cells are
  present. The table loaded from a file that has the header and no record is such a
  table; the default selections, no country and no source, leave it as it is; and the
  script, which tests emptiness first, shows the warning and computes no metric and no
  chart.
\<close>

theorem default_selection_empty_counterexample:
  "load_data strptime_Ymd (Csv production_header []) = Inr header_only
   \<and> countries header_only = Inr []
   \<and> sources header_only [] = Inr []
   \<and> filtered_df header_only [] [] = Inr header_only
   \<and> page header_only untouched =
       Finished [Title ''Water Production Dashboard: Country and Source Analysis'',
                 Markdown ''Analyzing daily production and efficiency metrics over time for water sources.'',
                 SidebarHeader ''Filter Data'',
                 Multiselect ''Select Country'' [] [],
                 Multiselect ''Select Source'' [] [],
                 Warning ''No data found for the selected filters. Please adjust your selections.'',
                 Checkbox ''Show Raw Data'']"
proof -
  have l: "load_data strptime_Ymd (Csv production_header []) = Inr header_only"
    using load_data_Csv [OF first_loc_production_header, of strptime_Ymd "[]"]
    by (simp add: production_header_def del_def display_names_def header_only_def)
  have c: "countries header_only = Inr []"
    using countries_rows [OF header_only_locs(1)] by (simp add: header_only_def unique_def)
  have s: "sources header_only [] = Inr []"
    using sources_rows [OF header_only_locs(1) header_only_locs(2), of "[]"]
    by (simp add: header_only_def unique_def)
  have f: "filtered_df header_only [] [] = Inr header_only"
    using filtered_df_rows [OF header_only_locs(1) header_only_locs(2), of "[]" "[]"]
    by (simp add: header_only_def)
  have m: "main_metrics header_only untouched =
      Inr [Warning ''No data found for the selected filters. Please adjust your selections.'']"
    by (simp add: main_metrics_def empty_df_def header_only_def)
  have p: "page header_only untouched =
       Finished [Title ''Water Production Dashboard: Country and Source Analysis'',
                 Markdown ''Analyzing daily production and efficiency metrics over time for water sources.'',
                 SidebarHeader ''Filter Data'',
                 Multiselect ''Select Country'' [] [],
                 Multiselect ''Select Source'' [] [],
                 Warning ''No data found for the selected filters. Please adjust your selections.'',
                 Checkbox ''Show Raw Data'']"
    using c s f m by (simp add: page_def multiselect_def untouched_def raw_data_def Let_def)
  from l c s f p show ?thesis by simp
qed

text \<open>
  Claim C10, amended. On a loaded table that has a row, whose country and source cells
  are all present, and whose key metrics are \<open>m\<close> (its three metric columns are there and
  numeric), the default selections, every country of the table and every source offered
  for them, filter nothing out: the filtered table is the table itself, and the first
  page of the dashboard shows the three metrics \<open>m\<close> of the whole table and the chart of
  the whole table.
\<close>

theorem default_selection_keeps_table:
  assumes "get_loc (columns df) ''country'' = Inr i" and "get_loc (columns df) ''source'' = Inr j"
    and "\<forall>(ix, r) \<in> set (rows df). \<not> isna (cell_at r i) \<and> \<not> isna (cell_at r j)"
    and "rows df \<noteq> []"
    and "key_metrics df = Inr m"
  shows "\<exists>cs ss. countries df = Inr cs
           \<and> sources df (multiselect cs cs None) = Inr ss
           \<and> filtered_df df (multiselect cs cs None) (multiselect ss ss None) = Inr df
           \<and> page df \<lparr>picked_countries = None, picked_sources = None, picked_metric = pm,
                      show_raw_data = raw\<rparr>
               = Finished
                   ([Title ''Water Production Dashboard: Country and Source Analysis'',
                     Markdown ''Analyzing daily production and efficiency metrics over time for water sources.'',
                     SidebarHeader ''Filter Data'',
                     Multiselect ''Select Country'' cs cs,
                     Multiselect ''Select Source'' ss ss,
                     Columns 3,
                     Metric ''Total Production'' (Some (total_production m)),
                     Metric ''Average Efficiency'' (avg_efficiency m),
                     Metric ''Total Service Hours'' (Some (total_service_hours m)),
                     Markdown ''---'',
                     Subheader ''Production and Efficiency Over Time'',
                     Selectbox ''Select Metric to Visualize'' metric_options,
                     AltairChart (reset_index df) (selectbox metric_options pm)]
                    @ raw_data df \<lparr>picked_countries = None, picked_sources = None,
                                   picked_metric = pm, show_raw_data = raw\<rparr>)"
proof -
  let ?cs = "unique (map (\<lambda>(ix, r). cell_at r i) (rows df))"
  let ?ss = "unique (map (\<lambda>(ix, r). cell_at r j) (rows df))"
  let ?u = "\<lparr>picked_countries = None, picked_sources = None, picked_metric = pm,
             show_raw_data = raw\<rparr>"
  have cs: "countries df = Inr ?cs"
    by (rule countries_rows [OF assms(1)])
  have all_c: "filter (\<lambda>(ix, r). cell_at r i \<in> set ?cs) (rows df) = rows df"
    by (auto simp: set_unique filter_id_conv intro!: image_eqI)
  have ss: "sources df ?cs = Inr ?ss"
    by (simp add: sources_rows [OF assms(1,2)] all_c)
  have all_s: "filter (\<lambda>(ix, r). cell_at r i \<in> set ?cs \<and> cell_at r j \<in> set ?ss) (rows df) = rows df"
    by (auto simp: set_unique filter_id_conv intro!: image_eqI)
  have f: "filtered_df df ?cs ?ss = Inr df"
    by (simp add: filtered_df_rows [OF assms(1,2)] all_s)
  have "\<not> empty_df df"
    using assms(4) get_loc_columns [OF assms(1)] by (simp add: empty_df_def)
  then have mm: "main_metrics df ?u =
      Inr [Columns 3,
           Metric ''Total Production'' (Some (total_production m)),
           Metric ''Average Efficiency'' (avg_efficiency m),
           Metric ''Total Service Hours'' (Some (total_service_hours m)),
           Markdown ''---'',
           Subheader ''Production and Efficiency Over Time'',
           Selectbox ''Select Metric to Visualize'' metric_options,
           AltairChart (reset_index df) (selectbox metric_options pm)]"
    using assms(5) by (simp add: main_metrics_def)
  show ?thesis
    using cs ss f mm by (simp add: multiselect_def page_def Let_def)
qed

theorem default_selection_keeps_table_witness:
  "countries two_rows = Inr [Str ''A'', Str ''B'']
   \<and> sources two_rows [Str ''A'', Str ''B''] = Inr [Str ''X'']
   \<and> filtered_df two_rows [Str ''A'', Str ''B''] [Str ''X''] = Inr two_rows
   \<and> page two_rows untouched =
       Finished [Title ''Water Production Dashboard: Country and Source Analysis'',
                 Markdown ''Analyzing daily production and efficiency metrics over time for water sources.'',
                 SidebarHeader ''Filter Data'',
                 Multiselect ''Select Country'' [Str ''A'', Str ''B''] [Str ''A'', Str ''B''],
                 Multiselect ''Select Source'' [Str ''X''] [Str ''X''],
                 Columns 3,
                 Metric ''Total Production'' (Some 3),
                 Metric ''Average Efficiency'' (Some 15),
                 Metric ''Total Service Hours'' (Some 12),
                 Markdown ''---'',
                 Subheader ''Production and Efficiency Over Time'',
                 Selectbox ''Select Metric to Visualize'' metric_options,
                 AltairChart (reset_index two_rows) (Some Production_label),
                 Checkbox ''Show Raw Data'']"
proof -
  have c: "countries two_rows = Inr [Str ''A'', Str ''B'']"
    using countries_rows [OF two_rows_locs(1)] by (simp add: two_rows_def cell_at_def unique_def)
  have s: "sources two_rows [Str ''A'', Str ''B''] = Inr [Str ''X'']"
    using sources_rows [OF two_rows_locs(1) two_rows_locs(2), of "[Str ''A'', Str ''B'']"]
    by (simp add: two_rows_def cell_at_def unique_def)
  have n: "\<forall>(ix, r) \<in> set (rows two_rows). \<not> isna (cell_at r 0) \<and> \<not> isna (cell_at r 1)"
    by (simp add: two_rows_def cell_at_def)
  have r: "rows two_rows \<noteq> []" by (simp add: two_rows_def)
  have sel: "selectbox metric_options None = Some Production_label"
    by (simp add: selectbox_def metric_options_def)
  from default_selection_keeps_table [OF two_rows_locs(1) two_rows_locs(2) n r key_metrics_two_rows,
      of None False]
  obtain cs ss where "countries two_rows = Inr cs"
    and "sources two_rows (multiselect cs cs None) = Inr ss"
    and "filtered_df two_rows (multiselect cs cs None) (multiselect ss ss None) = Inr two_rows"
    and "page two_rows \<lparr>picked_countries = None, picked_sources = None, picked_metric = None,
                      show_raw_data = False\<rparr>
               = Finished
                   ([Title ''Water Production Dashboard: Country and Source Analysis'',
                     Markdown ''Analyzing daily production and efficiency metrics over time for water sources.'',
                     SidebarHeader ''Filter Data'',
                     Multiselect ''Select Country'' cs cs,
                     Multiselect ''Select Source'' ss ss,
                     Columns 3,
                     Metric ''Total Production'' (Some (total_production
                        \<lparr>total_production = 3, avg_efficiency = Some 15, total_service_hours = 12\<rparr>)),
                     Metric ''Average Efficiency'' (avg_efficiency
                        \<lparr>total_production = 3, avg_efficiency = Some 15, total_service_hours = 12\<rparr>),
                     Metric ''Total Service Hours'' (Some (total_service_hours
                        \<lparr>total_production = 3, avg_efficiency = Some 15, total_service_hours = 12\<rparr>)),
                     Markdown ''---'',
                     Subheader ''Production and Efficiency Over Time'',
                     Selectbox ''Select Metric to Visualize'' metric_options,
                     AltairChart (reset_index two_rows) (selectbox metric_options None)]
                    @ raw_data two_rows \<lparr>picked_countries = None, picked_sources = None,
                                   picked_metric = None, show_raw_data = False\<rparr>)"
    by blast
  with c s sel show ?thesis by (simp add: multiselect_def untouched_def raw_data_def)
qed

end
